theory Spec2Isabelle
  imports Main "HOL-Library.Word"
begin

section \<open>JSON values and the JavaScript runtime\<close>

text \<open>
  A notification payload is a \<^verbatim>\<open>JsonValue\<close> of the Airship SDK: null, a boolean, a
  number, a string, an array or an object. The identifiers the notifications carry are
  integers, so numbers are modelled as \<^typ>\<open>int\<close>. An object is the list of its own
  properties. The JavaScript value \<^verbatim>\<open>undefined\<close> is \<^term>\<open>None\<close> of an option type.
\<close>

datatype JsonValue =
    JNull
  | JBoolean bool
  | JNumber int
  | JString string
  | JArray "JsonValue list"
  | JObject "(string \<times> JsonValue) list"

datatype exception = Error | TypeError | SyntaxError | InvalidCharacterError | Other string

text \<open>
  A call returns a value or throws. A promise, once nothing more happens to it, is
  fulfilled, rejected, or never settled.
\<close>

datatype 'a completion = Return 'a | Throw exception

datatype 'a promise = Resolved 'a | Rejected exception | Pending

type_synonym byte = "8 word"

text \<open>
  The library functions the module calls are parameters of the model. Each one either
  returns or throws (\<^term>\<open>Inl\<close>). \<^verbatim>\<open>atob\<close> returns a binary string, one character per
  byte, which is modelled as the list of those bytes; \<^verbatim>\<open>ToString\<close> is the conversion
  behind \<^verbatim>\<open>String(v)\<close>, template literals and computed property keys, for values that
  are not strings already.
\<close>

record runtime =
  atob :: "string \<Rightarrow> exception + byte list"
  pako_inflate :: "byte list \<Rightarrow> exception + string"
  JSON_parse :: "string \<Rightarrow> exception + JsonValue"
  ToString :: "JsonValue \<Rightarrow> exception + string"

text \<open>JavaScript truthiness, the test behind \<^verbatim>\<open>!x\<close> and \<^verbatim>\<open>if (x)\<close>.\<close>

fun truthy :: "JsonValue \<Rightarrow> bool" where
  "truthy JNull = False"
| "truthy (JBoolean b) = b"
| "truthy (JNumber n) = (n \<noteq> 0)"
| "truthy (JString s) = (s \<noteq> [])"
| "truthy (JArray xs) = True"
| "truthy (JObject kvs) = True"

fun truthy_opt :: "JsonValue option \<Rightarrow> bool" where
  "truthy_opt None = False"
| "truthy_opt (Some v) = truthy v"

text \<open>
  Reading a property of a decoded value, \<^verbatim>\<open>data.type\<close> and the like. Only an object has
  own properties with these names; on a number, a string, a boolean or an array the
  read gives \<^verbatim>\<open>undefined\<close>. The function is used at the names \<^verbatim>\<open>payload\<close>,
  \<^verbatim>\<open>type\<close>, \<^verbatim>\<open>reportID\<close>, \<^verbatim>\<open>onyxData\<close>, \<^verbatim>\<open>lastUpdateID\<close>,
  \<^verbatim>\<open>previousUpdateID\<close> and \<^verbatim>\<open>hasPendingOnyxUpdates\<close>, none of which a
  built-in prototype defines. It is never applied to null: every caller tests
  truthiness first.
\<close>

fun get_property :: "JsonValue \<Rightarrow> string \<Rightarrow> JsonValue option" where
  "get_property (JObject kvs) k = map_of kvs k"
| "get_property v k = None"

text \<open>\<^verbatim>\<open>String(v)\<close>, \<^verbatim>\<open>`${v}`\<close> and the key of \<^verbatim>\<open>obj[v]\<close>: a string is itself.\<close>

fun String_of :: "runtime \<Rightarrow> JsonValue option \<Rightarrow> exception + string" where
  "String_of rt None = Inr ''undefined''"
| "String_of rt (Some (JString s)) = Inr s"
| "String_of rt (Some v) = ToString rt v"

section \<open>parsePushNotificationPayload.ts\<close>

definition GZIP_MAGIC_NUMBER :: "byte list" where
  "GZIP_MAGIC_NUMBER = [0x1f, 0x8b]"

definition startsWith :: "'a list \<Rightarrow> 'a list \<Rightarrow> bool" where
  "startsWith s p = (take (length p) s = p)"

text \<open>
  The first \<^verbatim>\<open>try\<close> block of \<^verbatim>\<open>parsePushNotificationPayload\<close>: every exception
  raised in it, by \<^verbatim>\<open>atob\<close>, by the \<^verbatim>\<open>throw Error()\<close> of the magic-number test,
  by \<^verbatim>\<open>pako.inflate\<close> or by \<^verbatim>\<open>JSON.parse\<close>, is the \<^term>\<open>Inl\<close> that the
  \<^verbatim>\<open>catch\<close> receives.
\<close>

definition gzipped_json_string :: "runtime \<Rightarrow> string \<Rightarrow> exception + JsonValue" where
  "gzipped_json_string rt payload =
     (case atob rt payload of
        Inl e \<Rightarrow> Inl e
      | Inr binaryStringPayload \<Rightarrow>
          if \<not> startsWith binaryStringPayload GZIP_MAGIC_NUMBER then Inl Error
          else (case pako_inflate rt binaryStringPayload of
                  Inl e \<Rightarrow> Inl e
                | Inr decompressed \<Rightarrow> JSON_parse rt decompressed))"

definition parsePushNotificationPayload :: "runtime \<Rightarrow> JsonValue option \<Rightarrow> JsonValue option" where
  "parsePushNotificationPayload rt payload =
     (case payload of
        None \<Rightarrow> None
      | Some (JString s) \<Rightarrow>
          (case gzipped_json_string rt s of
             Inr jsonObject \<Rightarrow> Some jsonObject
           | Inl error \<Rightarrow>
               (case JSON_parse rt s of
                  Inr jsonObject \<Rightarrow> Some jsonObject
                | Inl error \<Rightarrow> None))
      | Some p \<Rightarrow> Some p)"

subsection \<open>The Payload Decoder as the specification words it\<close>

text \<open>
  The reference definition follows section 4.1 of the specification: each of the two
  string paths is an attempt that yields a value or nothing, and the decoder takes the
  first attempt that yields a value.
\<close>

definition attempt :: "exception + 'a \<Rightarrow> 'a option" where
  "attempt r = (case r of Inl e \<Rightarrow> None | Inr v \<Rightarrow> Some v)"

definition spec_gzip_path :: "runtime \<Rightarrow> string \<Rightarrow> JsonValue option" where
  "spec_gzip_path rt s =
     (case attempt (atob rt s) of
        None \<Rightarrow> None
      | Some bytes \<Rightarrow>
          if take 2 bytes = [0x1F, 0x8B]
          then (case attempt (pako_inflate rt bytes) of
                  None \<Rightarrow> None
                | Some text \<Rightarrow> attempt (JSON_parse rt text))
          else None)"

definition spec_plain_json_path :: "runtime \<Rightarrow> string \<Rightarrow> JsonValue option" where
  "spec_plain_json_path rt s = attempt (JSON_parse rt s)"

fun spec_Payload_Decoder :: "runtime \<Rightarrow> JsonValue option \<Rightarrow> JsonValue option" where
  "spec_Payload_Decoder rt None = None"
| "spec_Payload_Decoder rt (Some (JString s)) =
     (case spec_gzip_path rt s of
        Some v \<Rightarrow> Some v
      | None \<Rightarrow> spec_plain_json_path rt s)"
| "spec_Payload_Decoder rt (Some v) = Some v"

section \<open>index.native.ts: the dispatch table and the notification gateway\<close>

text \<open>The two event kinds of the Airship SDK that the module listens to and binds.\<close>

datatype EventType = PushReceived | NotificationResponse

text \<open>
  Modelled from the spec: \<^verbatim>\<open>NotificationType.ts\<close>, which declares the notification
  types and their strings, is not among the sources. The specification describes a
  small closed set of kinds: report comment, report action and transaction.
  \<^verbatim>\<open>subscribeToPushNotifications.ts\<close> names them \<^verbatim>\<open>TYPE.REPORT_COMMENT\<close>,
  \<^verbatim>\<open>TYPE.REPORT_ACTION\<close> and \<^verbatim>\<open>TYPE.TRANSACTION\<close>;
  \<^verbatim>\<open>shouldShowPushNotification.ts\<close> compares a type with \<^verbatim>\<open>'transaction'\<close>, and the
  comment of \<^verbatim>\<open>bind\<close> speaks of \<^verbatim>\<open>reportComment\<close> notifications. The theorems below
  use of these strings only that they are distinct, not empty, and not names of
  members of \<^verbatim>\<open>Object.prototype\<close>.
\<close>

datatype NotificationTypes = REPORT_COMMENT | REPORT_ACTION | TRANSACTION

fun NotificationType :: "NotificationTypes \<Rightarrow> string" where
  "NotificationType REPORT_COMMENT = ''reportComment''"
| "NotificationType REPORT_ACTION = ''reportAction''"
| "NotificationType TRANSACTION = ''transaction''"

text \<open>
  A handler takes the decoded data and returns its completion signal, a promise. The
  type \<open>'p\<close> stands for those promise objects. The tables are JavaScript objects used as
  dictionaries: the inner one is keyed by the string of the notification type.
\<close>

type_synonym 'p NotificationEventHandler = "JsonValue \<Rightarrow> 'p"

type_synonym 'p NotificationEventHandlerMap = "string \<Rightarrow> 'p NotificationEventHandler option"

type_synonym 'p NotificationEventActionMap = "EventType \<Rightarrow> 'p NotificationEventHandlerMap option"

record PushPayload =
  notificationId :: "string option"
  alert :: "string option"
  title :: "string option"
  subtitle :: "string option"
  extras :: "(string \<times> JsonValue) list"

text \<open>
  The inner table starts as the object literal \<^verbatim>\<open>{}\<close>, so a read \<^verbatim>\<open>actionMap[key]\<close>
  that finds no own property goes on to \<^verbatim>\<open>Object.prototype\<close>. Its members are
  functions, except \<^verbatim>\<open>__proto__\<close>, an accessor that yields \<^verbatim>\<open>Object.prototype\<close>
  itself. \<^verbatim>\<open>pushNotificationEventCallback\<close> calls what it has read as \<^verbatim>\<open>action(data)\<close>,
  with no receiver and an object as argument: \<^verbatim>\<open>Object(data)\<close> returns \<^verbatim>\<open>data\<close>,
  \<^verbatim>\<open>toString\<close> returns a string, and the others convert the missing receiver to an
  object first, which throws a TypeError.
\<close>

datatype inherited_member = Builtin_returns | Builtin_throws | Prototype_object

definition Object_prototype :: "string \<Rightarrow> inherited_member option" where
  "Object_prototype = map_of
     [(''constructor'', Builtin_returns),
      (''toString'', Builtin_returns),
      (''toLocaleString'', Builtin_throws),
      (''valueOf'', Builtin_throws),
      (''hasOwnProperty'', Builtin_throws),
      (''isPrototypeOf'', Builtin_throws),
      (''propertyIsEnumerable'', Builtin_throws),
      (''__defineGetter__'', Builtin_throws),
      (''__defineSetter__'', Builtin_throws),
      (''__lookupGetter__'', Builtin_throws),
      (''__lookupSetter__'', Builtin_throws),
      (''__proto__'', Prototype_object)]"

datatype 'p property = Undefined | Own "'p NotificationEventHandler" | Inherited inherited_member

definition get_action :: "'p NotificationEventHandlerMap \<Rightarrow> string \<Rightarrow> 'p property" where
  "get_action actionMap key =
     (case actionMap key of
        Some action \<Rightarrow> Own action
      | None \<Rightarrow> (case Object_prototype key of
                   Some m \<Rightarrow> Inherited m
                 | None \<Rightarrow> Undefined))"

text \<open>
  What a call of \<^verbatim>\<open>pushNotificationEventCallback\<close> does: the handlers it invokes, each
  with its argument, and how the call completes. It returns \<^verbatim>\<open>undefined\<close>, or what
  the handler returned, or the value of an inherited function, or it throws.
\<close>

datatype 'p returned = Return_undefined | Return_of_handler 'p | Return_of_builtin

record 'p dispatch =
  invoked :: "('p NotificationEventHandler \<times> JsonValue) list"
  completion :: "'p returned completion"

definition no_callback :: "'p dispatch" where
  "no_callback = \<lparr>invoked = [], completion = Return Return_undefined\<rparr>"

text \<open>
  \<^verbatim>\<open>pushNotificationEventCallback\<close>, with the process-wide table as an argument.
  Logging is left out, except that the template literal of the log line before the
  lookup converts \<^verbatim>\<open>data.type\<close> to a string, as the computed key
  \<^verbatim>\<open>actionMap[data.type]\<close> does again after it: a conversion that throws ends the
  call there.
\<close>

definition pushNotificationEventCallback ::
  "runtime \<Rightarrow> 'p NotificationEventActionMap \<Rightarrow> EventType \<Rightarrow> PushPayload \<Rightarrow> 'p dispatch" where
  "pushNotificationEventCallback rt notificationEventActionMap eventType notification =
     (let actionMap = (case notificationEventActionMap eventType of
                         None \<Rightarrow> Map.empty
                       | Some m \<Rightarrow> m);
          data = parsePushNotificationPayload rt (map_of (extras notification) ''payload'')
      in case data of
           None \<Rightarrow> no_callback
         | Some d \<Rightarrow>
             if \<not> truthy d then no_callback
             else if \<not> truthy_opt (get_property d ''type'') then no_callback
             else (case String_of rt (get_property d ''type'') of
                     Inl e \<Rightarrow> \<lparr>invoked = [], completion = Throw e\<rparr>
                   | Inr key \<Rightarrow>
                       (case get_action actionMap key of
                          Undefined \<Rightarrow> no_callback
                        | Own action \<Rightarrow>
                            \<lparr>invoked = [(action, d)],
                             completion = Return (Return_of_handler (action d))\<rparr>
                        | Inherited Builtin_returns \<Rightarrow>
                            \<lparr>invoked = [], completion = Return Return_of_builtin\<rparr>
                        | Inherited Builtin_throws \<Rightarrow>
                            \<lparr>invoked = [], completion = Throw TypeError\<rparr>
                        | Inherited Prototype_object \<Rightarrow>
                            \<lparr>invoked = [], completion = Throw TypeError\<rparr>)))"

text \<open>
  \<^verbatim>\<open>bind\<close> returns the updated table. Its notification type is one of
  \<^verbatim>\<open>NotificationTypes\<close>, stored under its string.
\<close>

definition bind ::
  "'p NotificationEventActionMap \<Rightarrow> EventType \<Rightarrow> NotificationTypes \<Rightarrow> 'p NotificationEventHandler
     \<Rightarrow> 'p NotificationEventActionMap" where
  "bind notificationEventActionMap triggerEvent notificationType callback =
     (let actionMap = (case notificationEventActionMap triggerEvent of
                         None \<Rightarrow> Map.empty
                       | Some m \<Rightarrow> m);
          actionMap = actionMap(NotificationType notificationType \<mapsto> callback)
      in notificationEventActionMap(triggerEvent \<mapsto> actionMap))"

definition onReceived ::
  "'p NotificationEventActionMap \<Rightarrow> NotificationTypes \<Rightarrow> 'p NotificationEventHandler
     \<Rightarrow> 'p NotificationEventActionMap" where
  "onReceived m notificationType callback = bind m PushReceived notificationType callback"

definition onSelected ::
  "'p NotificationEventActionMap \<Rightarrow> NotificationTypes \<Rightarrow> 'p NotificationEventHandler
     \<Rightarrow> 'p NotificationEventActionMap" where
  "onSelected m notificationType callback = bind m NotificationResponse notificationType callback"

text \<open>The handler bound for a pair of event kind and notification type, if any.\<close>

definition bound_handler ::
  "'p NotificationEventActionMap \<Rightarrow> EventType \<Rightarrow> NotificationTypes \<Rightarrow> 'p NotificationEventHandler option" where
  "bound_handler m eventType t =
     (case m eventType of None \<Rightarrow> None | Some actionMap \<Rightarrow> actionMap (NotificationType t))"

text \<open>A sequence of \<^verbatim>\<open>bind\<close> calls, run in order.\<close>

fun bind_all ::
  "'p NotificationEventActionMap \<Rightarrow> (EventType \<times> NotificationTypes \<times> 'p NotificationEventHandler) list
     \<Rightarrow> 'p NotificationEventActionMap" where
  "bind_all m [] = m"
| "bind_all m ((triggerEvent, notificationType, callback) # calls) =
     bind_all (bind m triggerEvent notificationType callback) calls"

text \<open>
  The callback of the last \<^verbatim>\<open>bind\<close> call in a sequence that names a given pair, if one
  does.
\<close>

fun latest_bind ::
  "(EventType \<times> NotificationTypes \<times> 'p NotificationEventHandler) list \<Rightarrow> EventType
     \<Rightarrow> NotificationTypes \<Rightarrow> 'p NotificationEventHandler option" where
  "latest_bind [] eventType t = None"
| "latest_bind ((triggerEvent, notificationType, callback) # calls) eventType t =
     (case latest_bind calls eventType t of
        Some later \<Rightarrow> Some later
      | None \<Rightarrow> if triggerEvent = eventType \<and> notificationType = t then Some callback else None)"

subsection \<open>Registration\<close>

text \<open>
  \<^verbatim>\<open>register\<close> takes a notification ID that is a string or a number (the module's
  \<^verbatim>\<open>types.ts\<close> is not among the sources; the code calls \<^verbatim>\<open>notificationID.toString()\<close>).
  The number conversion is the runtime's. The model returns the calls made to the SDK,
  in order. The results of \<^verbatim>\<open>enableUserNotifications\<close> and
  \<^verbatim>\<open>getNotificationStatus\<close> are only logged.
\<close>

datatype NotificationID = ID_string string | ID_number int

fun toString :: "(int \<Rightarrow> string) \<Rightarrow> NotificationID \<Rightarrow> string" where
  "toString Number_toString (ID_string s) = s"
| "toString Number_toString (ID_number n) = Number_toString n"

datatype sdk_call =
    Contact_getNamedUserId
  | Push_enableUserNotifications
  | Contact_identify string
  | Push_getNotificationStatus

record Airship =
  getNamedUserId :: "string option promise"

definition register :: "(int \<Rightarrow> string) \<Rightarrow> Airship \<Rightarrow> NotificationID \<Rightarrow> sdk_call list" where
  "register Number_toString sdk notificationID =
     Contact_getNamedUserId #
     (case getNamedUserId sdk of
        Resolved userID \<Rightarrow>
          if userID = Some (toString Number_toString notificationID) then []
          else [Push_enableUserNotifications,
                Contact_identify (toString Number_toString notificationID),
                Push_getNotificationStatus]
      | Rejected error \<Rightarrow> []
      | Pending \<Rightarrow> [])"

section \<open>subscribeToPushNotifications.ts\<close>

subsection \<open>The host bridge\<close>

text \<open>
  \<^verbatim>\<open>NativeModules.PushNotificationBridge\<close> may be absent, and when present its
  \<^verbatim>\<open>finishBackgroundProcessing\<close> member may be something other than a function. A
  call of the native function returns (a promise, or a plain value, which counts as a
  fulfilled promise) or throws.
\<close>

datatype native_member = Not_a_function | Native_function "unit promise completion"

record PushNotificationBridge =
  finishBackgroundProcessing :: native_member

record NativeModules =
  PushNotificationBridge :: "PushNotificationBridge option"

text \<open>The update request handed to \<^verbatim>\<open>applyOnyxUpdatesReliably\<close>, and its options.\<close>

datatype ONYX_UPDATE_TYPES = AIRSHIP

record OnyxUpdateEvent =
  update_eventType :: string
  update_data :: "JsonValue option"

record OnyxUpdatesFromServer =
  updates_type :: ONYX_UPDATE_TYPES
  updates_lastUpdateID :: "JsonValue option"
  updates_previousUpdateID :: "JsonValue option"
  shouldFetchPendingUpdates :: "bool option"
  updates :: "OnyxUpdateEvent list"

record applyOnyxUpdatesReliably_options =
  shouldRunSync :: bool
  clientLastUpdateID :: int

text \<open>The calls that leave the module: to the collaborator and to the host bridge.\<close>

datatype effect =
    ApplyOnyxUpdatesReliably OnyxUpdatesFromServer applyOnyxUpdatesReliably_options
  | FinishBackgroundProcessing

text \<open>
  \<^verbatim>\<open>safelyFinishBackgroundProcessing\<close>: the effects of the call and its completion.
  The arguments feed the log lines only.
\<close>

definition safelyFinishBackgroundProcessing ::
  "NativeModules \<Rightarrow> string \<Rightarrow> effect list \<times> unit promise completion" where
  "safelyFinishBackgroundProcessing nativeModules context =
     (case PushNotificationBridge nativeModules of
        None \<Rightarrow> ([], Return (Resolved ()))
      | Some bridge \<Rightarrow>
          (case finishBackgroundProcessing bridge of
             Native_function result \<Rightarrow> ([FinishBackgroundProcessing], result)
           | Not_a_function \<Rightarrow> ([], Return (Resolved ()))))"

subsection \<open>Promise chains\<close>

text \<open>
  A promise under construction is the list of effects performed until it settles,
  with its final state. \<^verbatim>\<open>p.then(f)\<close> runs \<^verbatim>\<open>f\<close> when \<^verbatim>\<open>p\<close> is fulfilled and
  takes the state of what \<^verbatim>\<open>f\<close> returns, or is rejected with what \<^verbatim>\<open>f\<close> throws; a
  rejection of \<^verbatim>\<open>p\<close> passes through. \<^verbatim>\<open>p.catch(f)\<close> is the mirror image.
\<close>

fun settled :: "'a promise completion \<Rightarrow> 'a promise" where
  "settled (Return p) = p"
| "settled (Throw e) = Rejected e"

fun promise_then ::
  "effect list \<times> 'a promise \<Rightarrow> ('a \<Rightarrow> effect list \<times> 'b promise completion)
     \<Rightarrow> effect list \<times> 'b promise" where
  "promise_then (es, Resolved v) onFulfilled =
     (case onFulfilled v of (es', r) \<Rightarrow> (es @ es', settled r))"
| "promise_then (es, Rejected e) onFulfilled = (es, Rejected e)"
| "promise_then (es, Pending) onFulfilled = (es, Pending)"

fun promise_catch ::
  "effect list \<times> 'a promise \<Rightarrow> (exception \<Rightarrow> effect list \<times> 'a promise completion)
     \<Rightarrow> effect list \<times> 'a promise" where
  "promise_catch (es, Rejected e) onRejected =
     (case onRejected e of (es', r) \<Rightarrow> (es @ es', settled r))"
| "promise_catch (es, Resolved v) onRejected = (es, Resolved v)"
| "promise_catch (es, Pending) onRejected = (es, Pending)"

subsection \<open>The Update Applier\<close>

text \<open>
  The fields that \<^verbatim>\<open>applyOnyxData\<close> takes out of its argument. Each may be absent, and
  a payload is unchecked JSON, so each is any JSON value.
\<close>

record PushNotificationData =
  reportID :: "JsonValue option"
  onyxData :: "JsonValue option"
  lastUpdateID :: "JsonValue option"
  previousUpdateID :: "JsonValue option"
  hasPendingOnyxUpdates :: "JsonValue option"

text \<open>
  The surroundings of \<^verbatim>\<open>applyOnyxData\<close>: the native modules, the outcome of reading
  \<^verbatim>\<open>ONYX_UPDATES_LAST_UPDATE_ID_APPLIED_TO_CLIENT\<close> through \<^verbatim>\<open>Onyx.connect\<close>, the
  collaborator \<^verbatim>\<open>applyOnyxUpdatesReliably\<close>, which returns a promise or throws, and the
  constant \<^verbatim>\<open>CONST.DEFAULT_NUMBER_ID\<close>.
\<close>

record host =
  nativeModules :: NativeModules
  lastUpdateIDAppliedToClient :: "int option promise"
  applyOnyxUpdatesReliably ::
    "OnyxUpdatesFromServer \<Rightarrow> applyOnyxUpdatesReliably_options \<Rightarrow> unit promise completion"
  DEFAULT_NUMBER_ID :: int

definition getLastUpdateIDAppliedToClient :: "host \<Rightarrow> effect list \<times> int promise" where
  "getLastUpdateIDAppliedToClient h =
     (case lastUpdateIDAppliedToClient h of
        Resolved v \<Rightarrow> ([], Resolved (case v of None \<Rightarrow> DEFAULT_NUMBER_ID h | Some n \<Rightarrow> n))
      | Rejected e \<Rightarrow> ([], Rejected e)
      | Pending \<Rightarrow> ([], Pending))"

text \<open>The promise chain that ends \<^verbatim>\<open>applyOnyxData\<close>, for the update request built.\<close>

definition applyOnyxData_chain :: "host \<Rightarrow> OnyxUpdatesFromServer \<Rightarrow> effect list \<times> unit promise" where
  "applyOnyxData_chain h request =
     promise_catch
       (promise_then
          (promise_then (getLastUpdateIDAppliedToClient h)
             (\<lambda>lastUpdateIDAppliedToClient.
                let options = \<lparr>shouldRunSync = True,
                               clientLastUpdateID = lastUpdateIDAppliedToClient\<rparr>
                in ([ApplyOnyxUpdatesReliably request options],
                    applyOnyxUpdatesReliably h request options)))
          (\<lambda>_. safelyFinishBackgroundProcessing (nativeModules h) ''success''))
       (\<lambda>error. safelyFinishBackgroundProcessing (nativeModules h) ''error'')"

definition applyOnyxData :: "host \<Rightarrow> PushNotificationData \<Rightarrow> effect list \<times> unit promise" where
  "applyOnyxData h d =
     (let pending = (case hasPendingOnyxUpdates d of None \<Rightarrow> JBoolean False | Some v \<Rightarrow> v)
      in if truthy pending then
           (let isDataMissing = \<not> truthy_opt (lastUpdateID d)
            in if isDataMissing then ([], Resolved ())
               else applyOnyxData_chain h
                      \<lparr>updates_type = AIRSHIP,
                       updates_lastUpdateID = lastUpdateID d,
                       updates_previousUpdateID = None,
                       shouldFetchPendingUpdates = Some True,
                       updates = []\<rparr>)
         else
           (let isDataMissing = (\<not> truthy_opt (lastUpdateID d) \<or> \<not> truthy_opt (onyxData d)
                                   \<or> \<not> truthy_opt (previousUpdateID d))
            in if isDataMissing then ([], Resolved ())
               else applyOnyxData_chain h
                      \<lparr>updates_type = AIRSHIP,
                       updates_lastUpdateID = lastUpdateID d,
                       updates_previousUpdateID = previousUpdateID d,
                       shouldFetchPendingUpdates = None,
                       updates = [\<lparr>update_eventType = [], update_data = onyxData d\<rparr>]\<rparr>))"

text \<open>How often a call sends the finish signal, and how often it calls the collaborator.\<close>

definition finish_signals :: "effect list \<times> 'a \<Rightarrow> nat" where
  "finish_signals r = count_list (fst r) FinishBackgroundProcessing"

fun is_collaborator_call :: "effect \<Rightarrow> bool" where
  "is_collaborator_call (ApplyOnyxUpdatesReliably request options) = True"
| "is_collaborator_call FinishBackgroundProcessing = False"

definition collaborator_calls :: "effect list \<times> 'a \<Rightarrow> nat" where
  "collaborator_calls r = length (filter is_collaborator_call (fst r))"

text \<open>
  The conditions under which \<^verbatim>\<open>applyOnyxData\<close> goes on to the collaborator, in the
  words of section 4.4 of the specification: the pending path requires
  \<^verbatim>\<open>lastUpdateID\<close>, the inline path requires \<^verbatim>\<open>lastUpdateID\<close>,
  \<^verbatim>\<open>previousUpdateID\<close> and \<^verbatim>\<open>onyxData\<close>.
\<close>

definition required_fields_present :: "PushNotificationData \<Rightarrow> bool" where
  "required_fields_present d =
     (if truthy_opt (hasPendingOnyxUpdates d) then truthy_opt (lastUpdateID d)
      else truthy_opt (lastUpdateID d) \<and> truthy_opt (previousUpdateID d)
             \<and> truthy_opt (onyxData d))"

fun fails :: "'a promise completion \<Rightarrow> bool" where
  "fails (Throw e) = True"
| "fails (Return (Rejected e)) = True"
| "fails (Return (Resolved v)) = False"
| "fails (Return Pending) = False"

fun hangs :: "'a promise completion \<Rightarrow> bool" where
  "hangs (Return Pending) = True"
| "hangs (Return (Resolved v)) = False"
| "hangs (Return (Rejected e)) = False"
| "hangs (Throw e) = False"

subsection \<open>The Report Navigator\<close>

text \<open>
  \<^verbatim>\<open>CONFIG\<close> and \<^verbatim>\<open>ROUTES\<close> are not among the sources: the constants that
  \<^verbatim>\<open>navigateToReport\<close> reads are parameters. \<^verbatim>\<open>REPORT_WITH_ID_getRoute\<close> takes the report
  ID and the \<^verbatim>\<open>backTo\<close> route.
\<close>

record config =
  IS_HYBRID_APP :: bool
  TRANSITION_BETWEEN_APPS :: string
  REPORT :: string
  REPORT_WITH_ID_getRoute :: "string \<Rightarrow> string option \<Rightarrow> string"

text \<open>
  The navigation collaborator works on a state of its own, \<open>'s\<close>. Each of its
  operations takes the state and gives the new state with a result or an exception.
\<close>

type_synonym ('s, 'a) step = "'s \<Rightarrow> 's \<times> (exception + 'a)"

record 's Navigation =
  waitForProtectedRoutes :: "unit promise"
  Modal_close_runs_callback :: bool
  getActiveRoute :: "('s, string) step"
  isActiveRoute :: "string \<Rightarrow> ('s, bool) step"
  goBack :: "('s, unit) step"
  navigate :: "string \<Rightarrow> ('s, unit) step"
  updateLastVisitedPath :: "string \<Rightarrow> ('s, unit) step"

definition yield :: "'a \<Rightarrow> ('s, 'a) step" where
  "yield a = (\<lambda>s. (s, Inr a))"

definition evaluate :: "exception + 'a \<Rightarrow> ('s, 'a) step" where
  "evaluate r = (\<lambda>s. (s, r))"

definition and_then :: "('s, 'a) step \<Rightarrow> ('a \<Rightarrow> ('s, 'b) step) \<Rightarrow> ('s, 'b) step" where
  "and_then f g = (\<lambda>s. case f s of (s', Inl e) \<Rightarrow> (s', Inl e) | (s', Inr a) \<Rightarrow> g a s')"

definition string_includes :: "string \<Rightarrow> string \<Rightarrow> bool" where
  "string_includes s t = list_ex (\<lambda>i. take (length t) (drop i s) = t) [0..<Suc (length s)]"

definition slice :: "string \<Rightarrow> nat \<Rightarrow> nat \<Rightarrow> string" where
  "slice s i j = take (j - i) (drop i s)"

text \<open>
  The body of the \<^verbatim>\<open>try\<close> block in the callback given to \<^verbatim>\<open>Modal.close\<close>. The
  report ID is converted to a string for the route pattern first; the later
  conversions of the same value give the same string.
\<close>

definition navigation_steps ::
  "runtime \<Rightarrow> config \<Rightarrow> 's Navigation \<Rightarrow> bool \<Rightarrow> JsonValue option \<Rightarrow> ('s, unit) step" where
  "navigation_steps rt cfg nav isSingleNewDotEntry rid =
     (if isSingleNewDotEntry then yield ()
      else
        and_then
          (if IS_HYBRID_APP cfg
           then and_then (getActiveRoute nav)
                  (\<lambda>route. if string_includes route (TRANSITION_BETWEEN_APPS cfg) then goBack nav
                            else yield ())
           else yield ())
          (\<lambda>_. and_then (getActiveRoute nav)
          (\<lambda>activeRoute. and_then (evaluate (String_of rt rid))
          (\<lambda>reportIDString.
             and_then
               (if slice activeRoute 1 2 = REPORT cfg
                then and_then (isActiveRoute nav (''r/'' @ reportIDString))
                       (\<lambda>active. if \<not> active then goBack nav else yield ())
                else yield ())
          (\<lambda>_. let fullTargetRoute = REPORT_WITH_ID_getRoute cfg reportIDString None
                in and_then (isActiveRoute nav fullTargetRoute)
          (\<lambda>onTarget. and_then
                          (if onTarget then yield None
                           else and_then (getActiveRoute nav) (\<lambda>route. yield (Some route)))
          (\<lambda>backTo. and_then (isActiveRoute nav fullTargetRoute)
          (\<lambda>isAlreadyOnTargetRoute.
             and_then (navigate nav (REPORT_WITH_ID_getRoute cfg reportIDString backTo))
          (\<lambda>_. updateLastVisitedPath nav fullTargetRoute)))))))))"

text \<open>
  \<^verbatim>\<open>navigateToReport\<close>: the promise it returns, the navigation state at the moment it
  returns, and what the callback that it left behind does afterwards: the state it
  leaves and the exception that its \<^verbatim>\<open>catch\<close> logged, if any.
\<close>

record 's navigated =
  returned_promise :: "unit promise"
  state_at_return :: 's
  state_afterwards :: 's
  caught_error :: "exception option"

definition navigateToReport ::
  "runtime \<Rightarrow> config \<Rightarrow> 's Navigation \<Rightarrow> bool \<Rightarrow> PushNotificationData \<Rightarrow> 's \<Rightarrow> 's navigated" where
  "navigateToReport rt cfg nav isSingleNewDotEntry d s =
     (let later =
            (case waitForProtectedRoutes nav of
               Resolved u \<Rightarrow>
                 if Modal_close_runs_callback nav
                 then (case navigation_steps rt cfg nav isSingleNewDotEntry (reportID d) s of
                         (s', Inl error) \<Rightarrow> (s', Some error)
                       | (s', Inr u) \<Rightarrow> (s', None))
                 else (s, None)
             | Rejected e \<Rightarrow> (s, None)
             | Pending \<Rightarrow> (s, None))
      in \<lparr>returned_promise = Resolved (),
          state_at_return = s,
          state_afterwards = fst later,
          caught_error = snd later\<rparr>)"

section \<open>shouldShowPushNotification.ts\<close>

text \<open>
  \<^verbatim>\<open>ReportActionsUtils\<close> and \<^verbatim>\<open>Report\<close> are not among the sources: the two functions
  called are parameters, over a type \<open>'ra\<close> of report actions. The function returns a
  boolean or throws.
\<close>

record 'ra report_functions =
  getLatestReportActionFromOnyxData :: "JsonValue \<Rightarrow> exception + 'ra"
  shouldShowReportActionNotification :: "string \<Rightarrow> 'ra \<Rightarrow> bool \<Rightarrow> exception + bool"

definition shouldShowPushNotification ::
  "runtime \<Rightarrow> 'ra report_functions \<Rightarrow> PushPayload \<Rightarrow> exception + bool" where
  "shouldShowPushNotification rt fs pushPayload =
     (let data = parsePushNotificationPayload rt (map_of (extras pushPayload) ''payload'')
      in case data of
           None \<Rightarrow> Inr True
         | Some d \<Rightarrow>
             if \<not> truthy d then Inr True
             else if get_property d ''type'' = Some (JString ''transaction'') then Inr True
             else (case getLatestReportActionFromOnyxData fs
                          (case get_property d ''onyxData'' of None \<Rightarrow> JNull | Some v \<Rightarrow> v) of
                     Inl e \<Rightarrow> Inl e
                   | Inr reportAction \<Rightarrow>
                       (case String_of rt (get_property d ''reportID'') of
                          Inl e \<Rightarrow> Inl e
                        | Inr reportIDString \<Rightarrow>
                            shouldShowReportActionNotification fs reportIDString reportAction True)))"

section \<open>Concrete inputs\<close>

text \<open>
  A small runtime for the examples. \<^verbatim>\<open>atob\<close> decodes two strings: the base64 text of
  the gzip stream of \<^verbatim>\<open>{}\<close>, and \<^verbatim>\<open>null\<close>, which is base64 for three bytes that do
  not start with the gzip magic number. \<^verbatim>\<open>pako.inflate\<close> accepts that gzip stream,
  and \<^verbatim>\<open>JSON.parse\<close> accepts the texts \<^verbatim>\<open>{}\<close> and \<^verbatim>\<open>null\<close>. Everything else
  throws.
\<close>

definition gzip_of_empty_object :: "byte list" where
  "gzip_of_empty_object =
     [0x1f, 0x8b, 0x08, 0x00, 0x00, 0x00, 0x00, 0x00, 0x02, 0x03, 0xab,
      0xae, 0x05, 0x00, 0x43, 0xbf, 0xa6, 0xa3, 0x02, 0x00, 0x00, 0x00]"

definition example_runtime :: runtime where
  "example_runtime =
     \<lparr>atob = (\<lambda>s. if s = ''H4sIAAAAAAACA6uuBQBDv6ajAgAAAA=='' then Inr gzip_of_empty_object
                   else if s = ''null'' then Inr [0x9e, 0xe9, 0x65]
                   else Inl InvalidCharacterError),
      pako_inflate = (\<lambda>bs. if bs = gzip_of_empty_object then Inr ''{}''
                            else Inl (Other ''incorrect header check'')),
      JSON_parse = (\<lambda>s. if s = ''{}'' then Inr (JObject [])
                         else if s = ''null'' then Inr JNull else Inl SyntaxError),
      ToString = (\<lambda>v. case v of JNumber n \<Rightarrow> (if n = 42 then Inr ''42'' else Inl TypeError)
                               | _ \<Rightarrow> Inl TypeError)\<rparr>"

definition notification_with :: "JsonValue \<Rightarrow> PushPayload" where
  "notification_with payload =
     \<lparr>notificationId = Some ''n1'', alert = None, title = None, subtitle = None,
      extras = [(''payload'', payload)]\<rparr>"

definition transaction_42 :: JsonValue where
  "transaction_42 = JObject [(''type'', JString ''transaction''), (''reportID'', JNumber 42)]"

definition report_comment_42 :: JsonValue where
  "report_comment_42 = JObject [(''type'', JString ''reportComment''), (''reportID'', JNumber 42)]"

definition first_handler :: "nat NotificationEventHandler" where
  "first_handler d = 1"

definition second_handler :: "nat NotificationEventHandler" where
  "second_handler d = 2"

definition example_number_toString :: "int \<Rightarrow> string" where
  "example_number_toString n = (if n = 42 then ''42'' else ''7'')"

definition bridge_with :: "native_member \<Rightarrow> NativeModules" where
  "bridge_with m = \<lparr>PushNotificationBridge = Some \<lparr>finishBackgroundProcessing = m\<rparr>\<rparr>"

definition host_with ::
  "NativeModules \<Rightarrow> unit promise completion \<Rightarrow> host" where
  "host_with nm outcome =
     \<lparr>nativeModules = nm,
      lastUpdateIDAppliedToClient = Resolved (Some 99),
      applyOnyxUpdatesReliably = (\<lambda>request options. outcome),
      DEFAULT_NUMBER_ID = 0\<rparr>"

definition inline_update :: PushNotificationData where
  "inline_update =
     \<lparr>reportID = Some (JNumber 7), onyxData = Some (JArray []),
      lastUpdateID = Some (JNumber 100), previousUpdateID = Some (JNumber 99),
      hasPendingOnyxUpdates = None\<rparr>"

definition pending_without_lastUpdateID :: PushNotificationData where
  "pending_without_lastUpdateID =
     \<lparr>reportID = Some (JNumber 7), onyxData = None,
      lastUpdateID = None, previousUpdateID = None,
      hasPendingOnyxUpdates = Some (JBoolean True)\<rparr>"

definition inline_without_previousUpdateID :: PushNotificationData where
  "inline_without_previousUpdateID =
     \<lparr>reportID = Some (JNumber 7), onyxData = Some (JArray []),
      lastUpdateID = Some (JNumber 100), previousUpdateID = None,
      hasPendingOnyxUpdates = Some (JBoolean False)\<rparr>"

text \<open>Report functions that would hide every notification they are asked about.\<close>

definition hiding_report_functions :: "unit report_functions" where
  "hiding_report_functions =
     \<lparr>getLatestReportActionFromOnyxData = (\<lambda>onyxData. Inr ()),
      shouldShowReportActionNotification = (\<lambda>reportID reportAction isRemote. Inr False)\<rparr>"

text \<open>
  A navigation collaborator whose state is the active route and whose \<^verbatim>\<open>navigate\<close>
  throws, with the constants it is used with.
\<close>

definition failing_navigation :: "string Navigation" where
  "failing_navigation =
     \<lparr>waitForProtectedRoutes = Resolved (),
      Modal_close_runs_callback = True,
      getActiveRoute = (\<lambda>s. (s, Inr s)),
      isActiveRoute = (\<lambda>route s. (s, Inr (s = route))),
      goBack = (\<lambda>s. (''/home'', Inr ())),
      navigate = (\<lambda>route s. (s, Inl (Other ''navigation failed''))),
      updateLastVisitedPath = (\<lambda>route s. (s, Inr ()))\<rparr>"

definition example_config :: config where
  "example_config =
     \<lparr>IS_HYBRID_APP = False,
      TRANSITION_BETWEEN_APPS = ''transition'',
      REPORT = ''r'',
      REPORT_WITH_ID_getRoute = (\<lambda>reportID backTo. ''r/'' @ reportID)\<rparr>"

definition report_7 :: PushNotificationData where
  "report_7 =
     \<lparr>reportID = Some (JString ''7''), onyxData = None, lastUpdateID = None,
      previousUpdateID = None, hasPendingOnyxUpdates = None\<rparr>"

definition working_bridge :: NativeModules where
  "working_bridge = bridge_with (Native_function (Return (Resolved ())))"

section \<open>Theorems\<close>

subsection \<open>The payload decoder\<close>

lemma gzipped_json_string_attempt:
  "attempt (gzipped_json_string rt s) = spec_gzip_path rt s"
  by (simp add: gzipped_json_string_def spec_gzip_path_def attempt_def startsWith_def
      GZIP_MAGIC_NUMBER_def numeral_2_eq_2 split: sum.splits)

text \<open>
  Claim C3. For every input, \<^verbatim>\<open>parsePushNotificationPayload\<close> equals the reference
  decoder of the specification: \<^verbatim>\<open>undefined\<close> gives no data, a value that is not a
  string is returned unchanged, a string goes through the base64 and gzip path when
  its decoded bytes start with 0x1F 0x8B, and otherwise, or when that path fails, is
  parsed as JSON directly; when both fail there is no data.
\<close>

theorem parsePushNotificationPayload_refines_spec:
  "parsePushNotificationPayload rt payload = spec_Payload_Decoder rt payload"
proof (cases payload)
  case None
  then show ?thesis by (simp add: parsePushNotificationPayload_def)
next
  case (Some p)
  show ?thesis
  proof (cases p)
    case (JString s)
    have "spec_gzip_path rt s = attempt (gzipped_json_string rt s)"
      by (simp add: gzipped_json_string_attempt)
    with Some JString show ?thesis
      by (simp add: parsePushNotificationPayload_def spec_plain_json_path_def attempt_def
          split: sum.splits)
  qed (simp_all add: Some parsePushNotificationPayload_def)
qed

text \<open>
  The decoder on the five kinds of input that section 8 of the specification lists: an
  object, \<^verbatim>\<open>undefined\<close>, base64 of a gzip stream of JSON, base64 of other bytes that
  is JSON as it stands, and a string that is neither.
\<close>

lemma parsePushNotificationPayload_examples:
  "parsePushNotificationPayload example_runtime (Some transaction_42) = Some transaction_42"
  "parsePushNotificationPayload example_runtime None = None"
  "parsePushNotificationPayload example_runtime (Some (JString ''H4sIAAAAAAACA6uuBQBDv6ajAgAAAA==''))
     = Some (JObject [])"
  "parsePushNotificationPayload example_runtime (Some (JString ''null'')) = Some JNull"
  "parsePushNotificationPayload example_runtime (Some (JString ''not json'')) = None"
  by (simp_all add: parsePushNotificationPayload_def gzipped_json_string_def example_runtime_def
      transaction_42_def startsWith_def GZIP_MAGIC_NUMBER_def gzip_of_empty_object_def)

subsection \<open>The dispatch table and the notification gateway\<close>

lemma NotificationType_not_empty: "NotificationType t \<noteq> []"
  by (cases t) simp_all

lemma NotificationType_inject: "NotificationType t = NotificationType t' \<longleftrightarrow> t = t'"
  by (cases t; cases t') simp_all

lemma NotificationType_not_inherited: "Object_prototype (NotificationType t) = None"
  by (cases t) (simp_all add: Object_prototype_def)

lemma get_property_truthy: "get_property d k = Some v \<Longrightarrow> truthy d"
  by (cases d) simp_all

lemma dispatch_bound:
  assumes "parsePushNotificationPayload rt (map_of (extras notification) ''payload'') = Some d"
    and "get_property d ''type'' = Some (JString (NotificationType t))"
    and "bound_handler m eventType t = Some h"
  shows "pushNotificationEventCallback rt m eventType notification =
           \<lparr>invoked = [(h, d)], completion = Return (Return_of_handler (h d))\<rparr>"
proof -
  from assms(3) obtain actionMap where am: "m eventType = Some actionMap"
      "actionMap (NotificationType t) = Some h"
    by (auto simp: bound_handler_def split: option.splits)
  have tr: "truthy d" using assms(2) by (rule get_property_truthy)
  show ?thesis
    using assms(1,2) am tr
    by (simp add: pushNotificationEventCallback_def get_action_def NotificationType_not_empty)
qed

lemma bound_handler_bind:
  "bound_handler (bind m ev t cb) ev' t' =
     (if ev' = ev \<and> t' = t then Some cb else bound_handler m ev' t')"
  by (auto simp: bound_handler_def bind_def NotificationType_inject split: option.splits)

lemma bound_handler_bind_all:
  "bound_handler (bind_all m calls) ev t =
     (case latest_bind calls ev t of Some h \<Rightarrow> Some h | None \<Rightarrow> bound_handler m ev t)"
proof (induction calls arbitrary: m)
  case Nil
  show ?case by simp
next
  case (Cons c calls)
  obtain ev' t' cb where c: "c = (ev', t', cb)" by (cases c)
  show ?case
    by (simp add: c Cons.IH bound_handler_bind split: option.splits)
qed

text \<open>
  Claim C1. For every event kind and raw payload: when the decoder yields data whose
  \<^verbatim>\<open>type\<close> is a notification type and a handler is bound for the event kind and
  that type, \<^verbatim>\<open>pushNotificationEventCallback\<close> invokes that handler, once, with
  exactly the decoded data, and returns what the handler returned.
\<close>

theorem dispatch_invokes_bound_handler:
  assumes "parsePushNotificationPayload rt (map_of (extras notification) ''payload'') = Some d"
    and "get_property d ''type'' = Some (JString (NotificationType t))"
    and "bound_handler m eventType t = Some h"
  shows "pushNotificationEventCallback rt m eventType notification =
           \<lparr>invoked = [(h, d)], completion = Return (Return_of_handler (h d))\<rparr>"
  using assms by (rule dispatch_bound)

theorem dispatch_invokes_bound_handler_witness:
  "pushNotificationEventCallback example_runtime
     (bind Map.empty PushReceived TRANSACTION first_handler) PushReceived
     (notification_with transaction_42)
   = \<lparr>invoked = [(first_handler, transaction_42)],
      completion = Return (Return_of_handler (first_handler transaction_42))\<rparr>"
  using dispatch_invokes_bound_handler [of example_runtime "notification_with transaction_42"
      transaction_42 TRANSACTION "bind Map.empty PushReceived TRANSACTION first_handler"
      PushReceived first_handler]
  by (simp add: notification_with_def transaction_42_def parsePushNotificationPayload_def
      bound_handler_def bind_def)

text \<open>
  What does hold of the silent return: with no data, with data that has no truthy
  \<^verbatim>\<open>type\<close>, and with a type whose key is neither bound nor a member of
  \<^verbatim>\<open>Object.prototype\<close>, no handler is invoked and the call returns \<^verbatim>\<open>undefined\<close>.
\<close>

lemma dispatch_no_callback:
  assumes "parsePushNotificationPayload rt (map_of (extras notification) ''payload'') = None
     \<or> (\<exists>d. parsePushNotificationPayload rt (map_of (extras notification) ''payload'') = Some d
            \<and> \<not> truthy_opt (get_property d ''type''))
     \<or> (\<exists>d key. parsePushNotificationPayload rt (map_of (extras notification) ''payload'') = Some d
            \<and> String_of rt (get_property d ''type'') = Inr key
            \<and> (case m eventType of None \<Rightarrow> None | Some actionMap \<Rightarrow> actionMap key) = None
            \<and> Object_prototype key = None)"
  shows "pushNotificationEventCallback rt m eventType notification = no_callback"
  using assms
  by (auto simp: pushNotificationEventCallback_def get_action_def split: option.splits sum.splits)

text \<open>A table built by \<^verbatim>\<open>bind\<close> calls holds handlers under notification types only.\<close>

lemma bind_all_keys:
  "bind_all m calls ev = Some actionMap \<Longrightarrow> actionMap key = Some h \<Longrightarrow>
     (\<exists>t. key = NotificationType t)
     \<or> (\<exists>actionMap0. m ev = Some actionMap0 \<and> actionMap0 key = Some h)"
proof (induction calls arbitrary: m)
  case Nil
  then show ?case by simp
next
  case (Cons c calls)
  obtain ev' t' cb where c: "c = (ev', t', cb)" by (cases c)
  from Cons.IH [of "bind m ev' t' cb"] Cons.prems
  have "(\<exists>t. key = NotificationType t) \<or>
        (\<exists>actionMap0. bind m ev' t' cb ev = Some actionMap0 \<and> actionMap0 key = Some h)"
    by (simp add: c)
  then show ?case
    by (auto simp: bind_def split: if_splits option.splits)
qed

lemma get_action_inherited:
  assumes "Object_prototype key = Some member"
  shows "get_action (case bind_all Map.empty calls ev of None \<Rightarrow> Map.empty | Some m \<Rightarrow> m) key
           = Inherited member"
proof (cases "bind_all Map.empty calls ev")
  case None
  then show ?thesis using assms by (simp add: get_action_def)
next
  case (Some actionMap)
  have "actionMap key = None"
  proof (cases "actionMap key")
    case None
    then show ?thesis .
  next
    case (Some h)
    with \<open>bind_all Map.empty calls ev = Some actionMap\<close>
      bind_all_keys [of Map.empty calls ev actionMap key h]
    obtain t where "key = NotificationType t" by auto
    with assms show ?thesis by (simp add: NotificationType_not_inherited)
  qed
  with Some assms show ?thesis by (simp add: get_action_def)
qed

text \<open>
  Claim C4. The claim says that dispatch returns silently, invoking nothing and raising
  nothing, whenever no handler is bound for the event kind and the decoded type. The
  code does not: for the payload \<^verbatim>\<open>{type: "valueOf"}\<close>, whatever has been bound and
  for either event kind, the lookup \<^verbatim>\<open>actionMap[data.type]\<close> finds
  \<^verbatim>\<open>Object.prototype.valueOf\<close>, the test \<^verbatim>\<open>!action\<close> lets it pass, and the call
  \<^verbatim>\<open>action(data)\<close> throws a TypeError.
\<close>

theorem dispatch_inherited_member_throws:
  "pushNotificationEventCallback rt (bind_all Map.empty calls) eventType
     (notification_with (JObject [(''type'', JString ''valueOf'')]))
   = \<lparr>invoked = [], completion = Throw TypeError\<rparr>"
proof -
  have "Object_prototype ''valueOf'' = Some Builtin_throws"
    by (simp add: Object_prototype_def)
  then have "get_action
      (case bind_all Map.empty calls eventType of None \<Rightarrow> Map.empty | Some m \<Rightarrow> m)
      ''valueOf'' = Inherited Builtin_throws"
    by (rule get_action_inherited)
  then show ?thesis
    by (simp add: pushNotificationEventCallback_def notification_with_def
        parsePushNotificationPayload_def)
qed

text \<open>
  Claim C6. \<^verbatim>\<open>bind\<close> installs the handler for its pair of event kind and notification
  type, in place of any handler bound before, and leaves every other pair as it was;
  it is a total function, so it cannot fail. After every sequence of \<^verbatim>\<open>bind\<close> calls
  a pair has at most one handler, the one of the latest call that named the pair
  (or the one it had before, when no call named it), and dispatch of a notification of
  that type invokes that latest handler and no other.
\<close>

theorem bind_installs_latest:
  "bound_handler (bind m ev t cb) ev' t' =
     (if ev' = ev \<and> t' = t then Some cb else bound_handler m ev' t')
   \<and> bound_handler (bind_all m calls) ev t =
       (case latest_bind calls ev t of Some h \<Rightarrow> Some h | None \<Rightarrow> bound_handler m ev t)
   \<and> (\<forall>(notification :: PushPayload) d h.
         parsePushNotificationPayload rt (map_of (extras notification) ''payload'') = Some d
         \<and> get_property d ''type'' = Some (JString (NotificationType t))
         \<and> latest_bind calls ev t = Some h
         \<longrightarrow> pushNotificationEventCallback rt (bind_all m calls) ev notification =
               \<lparr>invoked = [(h, d)], completion = Return (Return_of_handler (h d))\<rparr>)"
proof (intro conjI allI impI)
  show "bound_handler (bind m ev t cb) ev' t' =
     (if ev' = ev \<and> t' = t then Some cb else bound_handler m ev' t')"
    by (rule bound_handler_bind)
  show "bound_handler (bind_all m calls) ev t =
       (case latest_bind calls ev t of Some h \<Rightarrow> Some h | None \<Rightarrow> bound_handler m ev t)"
    by (rule bound_handler_bind_all)
next
  fix notification :: PushPayload and d h
  assume a: "parsePushNotificationPayload rt (map_of (extras notification) ''payload'') = Some d
         \<and> get_property d ''type'' = Some (JString (NotificationType t))
         \<and> latest_bind calls ev t = Some h"
  then have "bound_handler (bind_all m calls) ev t = Some h"
    by (simp add: bound_handler_bind_all)
  with a show "pushNotificationEventCallback rt (bind_all m calls) ev notification =
               \<lparr>invoked = [(h, d)], completion = Return (Return_of_handler (h d))\<rparr>"
    by (simp add: dispatch_bound)
qed

theorem bind_installs_latest_witness:
  "bound_handler (bind (bind Map.empty PushReceived TRANSACTION first_handler)
       PushReceived TRANSACTION second_handler) PushReceived TRANSACTION = Some second_handler
   \<and> pushNotificationEventCallback example_runtime
       (bind_all Map.empty [(PushReceived, TRANSACTION, first_handler),
                            (NotificationResponse, TRANSACTION, first_handler),
                            (PushReceived, TRANSACTION, second_handler)])
       PushReceived (notification_with transaction_42)
     = \<lparr>invoked = [(second_handler, transaction_42)],
        completion = Return (Return_of_handler (second_handler transaction_42))\<rparr>"
proof -
  note inst = bind_installs_latest [where m = "bind Map.empty PushReceived TRANSACTION first_handler"
      and ev = PushReceived and t = TRANSACTION and cb = second_handler
      and ev' = PushReceived and t' = TRANSACTION and rt = example_runtime
      and calls = "[(PushReceived, TRANSACTION, first_handler),
                     (NotificationResponse, TRANSACTION, first_handler),
                     (PushReceived, TRANSACTION, second_handler)]"]
  from inst have one: "bound_handler (bind (bind Map.empty PushReceived TRANSACTION first_handler)
       PushReceived TRANSACTION second_handler) PushReceived TRANSACTION = Some second_handler"
    by simp
  from bind_installs_latest [where m = Map.empty and ev = PushReceived and t = TRANSACTION
      and rt = example_runtime
      and calls = "[(PushReceived, TRANSACTION, first_handler),
                     (NotificationResponse, TRANSACTION, first_handler),
                     (PushReceived, TRANSACTION, second_handler)]",
      THEN conjunct2, THEN conjunct2, rule_format,
      of "notification_with transaction_42" transaction_42 second_handler]
  have two: "pushNotificationEventCallback example_runtime
       (bind_all Map.empty [(PushReceived, TRANSACTION, first_handler),
                            (NotificationResponse, TRANSACTION, first_handler),
                            (PushReceived, TRANSACTION, second_handler)])
       PushReceived (notification_with transaction_42)
     = \<lparr>invoked = [(second_handler, transaction_42)],
        completion = Return (Return_of_handler (second_handler transaction_42))\<rparr>"
    by (simp add: notification_with_def transaction_42_def parsePushNotificationPayload_def)
  from one two show ?thesis by (rule conjI)
qed

subsection \<open>Registration\<close>

text \<open>
  Claim C7. For every notification ID: if the named user that \<^verbatim>\<open>register\<close> reads
  from the SDK equals the ID converted to a string, \<^verbatim>\<open>register\<close> does nothing more:
  the read is its only call to the SDK, so it makes no permission request and no
  \<^verbatim>\<open>identify\<close> call.
\<close>

theorem register_already_registered:
  assumes "getNamedUserId sdk = Resolved (Some (toString Number_toString notificationID))"
  shows "register Number_toString sdk notificationID = [Contact_getNamedUserId]
       \<and> Push_enableUserNotifications \<notin> set (register Number_toString sdk notificationID)
       \<and> (\<forall>namedUser.
             Contact_identify namedUser \<notin> set (register Number_toString sdk notificationID))"
  using assms by (simp add: register_def)

theorem register_already_registered_witness:
  "register example_number_toString \<lparr>getNamedUserId = Resolved (Some ''42'')\<rparr> (ID_number 42)
     = [Contact_getNamedUserId]
   \<and> Push_enableUserNotifications
       \<notin> set (register example_number_toString \<lparr>getNamedUserId = Resolved (Some ''42'')\<rparr>
                (ID_number 42))"
  using register_already_registered [of "\<lparr>getNamedUserId = Resolved (Some ''42'')\<rparr>"
      example_number_toString "ID_number 42"]
  by (simp add: example_number_toString_def)

text \<open>Otherwise the permission request, the identification and the status query follow.\<close>

lemma register_identifies:
  "register example_number_toString \<lparr>getNamedUserId = Resolved None\<rparr> (ID_string ''abc'')
     = [Contact_getNamedUserId, Push_enableUserNotifications, Contact_identify ''abc'',
        Push_getNotificationStatus]"
  by (simp add: register_def)

subsection \<open>The Update Applier\<close>

text \<open>
  Claim C8. Whenever the host bridge is absent, or is there without a
  \<^verbatim>\<open>finishBackgroundProcessing\<close> function, \<^verbatim>\<open>safelyFinishBackgroundProcessing\<close> does
  not throw: it sends nothing and returns a fulfilled promise.
\<close>

theorem safelyFinish_without_bridge:
  assumes "PushNotificationBridge nm = None
     \<or> (\<exists>bridge. PushNotificationBridge nm = Some bridge
            \<and> finishBackgroundProcessing bridge = Not_a_function)"
  shows "safelyFinishBackgroundProcessing nm context = ([], Return (Resolved ()))"
  using assms by (auto simp: safelyFinishBackgroundProcessing_def)

theorem safelyFinish_without_bridge_witness:
  "safelyFinishBackgroundProcessing \<lparr>PushNotificationBridge = None\<rparr> ''success''
     = ([], Return (Resolved ()))
   \<and> safelyFinishBackgroundProcessing (bridge_with Not_a_function) ''error''
     = ([], Return (Resolved ()))"
  using safelyFinish_without_bridge [of "\<lparr>PushNotificationBridge = None\<rparr>" "''success''"]
    safelyFinish_without_bridge [of "bridge_with Not_a_function" "''error''"]
  by (simp add: bridge_with_def)

lemma applyOnyxData_abandons:
  fixes d :: PushNotificationData
  assumes "\<not> required_fields_present d"
  shows "applyOnyxData h d = ([], Resolved ())"
  using assms
  by (cases "hasPendingOnyxUpdates d")
     (auto simp: applyOnyxData_def required_fields_present_def Let_def)

lemma applyOnyxData_proceeds:
  fixes d :: PushNotificationData
  assumes "required_fields_present d"
  shows "\<exists>request. applyOnyxData h d = applyOnyxData_chain h request"
  using assms
  by (cases "hasPendingOnyxUpdates d")
     (auto simp: applyOnyxData_def required_fields_present_def Let_def split: if_splits)

text \<open>
  Claim C5. For every input with a required field missing, that is with
  \<^verbatim>\<open>hasPendingOnyxUpdates\<close> true and no \<^verbatim>\<open>lastUpdateID\<close>, or with
  \<^verbatim>\<open>hasPendingOnyxUpdates\<close> false or absent and one of \<^verbatim>\<open>lastUpdateID\<close>,
  \<^verbatim>\<open>previousUpdateID\<close>, \<^verbatim>\<open>onyxData\<close> absent, \<^verbatim>\<open>applyOnyxData\<close> returns a
  fulfilled promise and performs no effect: the collaborator is never called.
\<close>

theorem applyOnyxData_missing_field:
  fixes d :: PushNotificationData
  assumes "(hasPendingOnyxUpdates d = Some (JBoolean True) \<and> lastUpdateID d = None)
     \<or> ((hasPendingOnyxUpdates d = Some (JBoolean False) \<or> hasPendingOnyxUpdates d = None)
         \<and> (lastUpdateID d = None \<or> previousUpdateID d = None \<or> onyxData d = None))"
  shows "applyOnyxData h d = ([], Resolved ()) \<and> collaborator_calls (applyOnyxData h d) = 0"
proof -
  from assms have "\<not> required_fields_present d"
    by (auto simp: required_fields_present_def)
  then have "applyOnyxData h d = ([], Resolved ())"
    by (rule applyOnyxData_abandons)
  then show ?thesis by (simp add: collaborator_calls_def)
qed

theorem applyOnyxData_missing_field_witness:
  "applyOnyxData (host_with working_bridge (Return (Resolved ()))) pending_without_lastUpdateID
     = ([], Resolved ())
   \<and> applyOnyxData (host_with working_bridge (Return (Resolved ())))
       inline_without_previousUpdateID
     = ([], Resolved ())"
  using applyOnyxData_missing_field [of pending_without_lastUpdateID
      "host_with working_bridge (Return (Resolved ()))"]
    applyOnyxData_missing_field [of inline_without_previousUpdateID
      "host_with working_bridge (Return (Resolved ()))"]
  by (simp add: pending_without_lastUpdateID_def inline_without_previousUpdateID_def)

text \<open>
  With the required fields present the collaborator is called, once, with the update
  request and the last update ID read from the store.
\<close>

lemma applyOnyxData_inline_update:
  "applyOnyxData (host_with working_bridge (Return (Resolved ()))) inline_update
     = ([ApplyOnyxUpdatesReliably
           \<lparr>updates_type = AIRSHIP,
            updates_lastUpdateID = Some (JNumber 100),
            updates_previousUpdateID = Some (JNumber 99),
            shouldFetchPendingUpdates = None,
            updates = [\<lparr>update_eventType = [], update_data = Some (JArray [])\<rparr>]\<rparr>
           \<lparr>shouldRunSync = True, clientLastUpdateID = 99\<rparr>,
         FinishBackgroundProcessing],
        Resolved ())"
  by (simp add: applyOnyxData_def inline_update_def host_with_def working_bridge_def
      bridge_with_def applyOnyxData_chain_def getLastUpdateIDAppliedToClient_def
      safelyFinishBackgroundProcessing_def)

lemma chain_finish_once:
  assumes b: "PushNotificationBridge (nativeModules h) = Some bridge"
    and f: "finishBackgroundProcessing bridge = Native_function r"
    and nf: "\<not> fails r"
    and rd: "lastUpdateIDAppliedToClient h \<noteq> Pending"
    and col: "\<forall>request options. \<not> hangs (applyOnyxUpdatesReliably h request options)"
  shows "finish_signals (applyOnyxData_chain h request) = 1"
proof -
  have sf: "safelyFinishBackgroundProcessing (nativeModules h) c
              = ([FinishBackgroundProcessing], r)" for c
    using b f by (simp add: safelyFinishBackgroundProcessing_def)
  from nf have r: "r = Return (Resolved ()) \<or> r = Return Pending"
    by (cases r rule: fails.cases) simp_all
  show ?thesis
  proof (cases "lastUpdateIDAppliedToClient h")
    case (Resolved v)
    define options where "options = \<lparr>shouldRunSync = True,
        clientLastUpdateID = (case v of None \<Rightarrow> DEFAULT_NUMBER_ID h | Some n \<Rightarrow> n)\<rparr>"
    from col have nh: "\<not> hangs (applyOnyxUpdatesReliably h request options)" by simp
    show ?thesis
    proof (cases "applyOnyxUpdatesReliably h request options" rule: hangs.cases)
      case 1
      with nh show ?thesis by simp
    next
      case (2 u)
      with Resolved r show ?thesis
        by (auto simp: applyOnyxData_chain_def getLastUpdateIDAppliedToClient_def sf
            finish_signals_def options_def Let_def)
    next
      case (3 e)
      with Resolved r show ?thesis
        by (auto simp: applyOnyxData_chain_def getLastUpdateIDAppliedToClient_def sf
            finish_signals_def options_def Let_def)
    next
      case (4 e)
      with Resolved r show ?thesis
        by (auto simp: applyOnyxData_chain_def getLastUpdateIDAppliedToClient_def sf
            finish_signals_def options_def Let_def)
    qed
  next
    case (Rejected e)
    with r show ?thesis
      by (auto simp: applyOnyxData_chain_def getLastUpdateIDAppliedToClient_def sf
          finish_signals_def)
  next
    case Pending
    with rd show ?thesis by simp
  qed
qed

text \<open>
  Claim C2, as stated, fails: a call abandoned for a missing required field returns
  without sending the finish signal, although the bridge is there and works.
\<close>

theorem applyOnyxData_missing_field_sends_no_signal:
  "finish_signals
     (applyOnyxData (host_with working_bridge (Return (Resolved ()))) pending_without_lastUpdateID)
   = 0"
  by (simp add: applyOnyxData_def pending_without_lastUpdateID_def finish_signals_def)

text \<open>
  Claim C2, amended. A call abandoned for a missing required field sends no finish
  signal. A call with its required fields present sends the finish signal exactly
  once, whether the collaborator succeeds or fails, provided that the read of the last
  update ID and the collaborator settle, that the host bridge has the
  \<^verbatim>\<open>finishBackgroundProcessing\<close> function, and that the call of that function does not
  itself fail.
\<close>

theorem applyOnyxData_finish_signal:
  fixes d :: PushNotificationData
  shows "(\<not> required_fields_present d \<longrightarrow> finish_signals (applyOnyxData h d) = 0)
   \<and> (required_fields_present d
        \<and> PushNotificationBridge (nativeModules h) = Some bridge
        \<and> finishBackgroundProcessing bridge = Native_function r \<and> \<not> fails r
        \<and> lastUpdateIDAppliedToClient h \<noteq> Pending
        \<and> (\<forall>request options. \<not> hangs (applyOnyxUpdatesReliably h request options))
      \<longrightarrow> finish_signals (applyOnyxData h d) = 1)"
proof (intro conjI impI)
  assume "\<not> required_fields_present d"
  then have "applyOnyxData h d = ([], Resolved ())" by (rule applyOnyxData_abandons)
  then show "finish_signals (applyOnyxData h d) = 0" by (simp add: finish_signals_def)
next
  assume a: "required_fields_present d
        \<and> PushNotificationBridge (nativeModules h) = Some bridge
        \<and> finishBackgroundProcessing bridge = Native_function r \<and> \<not> fails r
        \<and> lastUpdateIDAppliedToClient h \<noteq> Pending
        \<and> (\<forall>request options. \<not> hangs (applyOnyxUpdatesReliably h request options))"
  then obtain request where "applyOnyxData h d = applyOnyxData_chain h request"
    using applyOnyxData_proceeds by blast
  with a show "finish_signals (applyOnyxData h d) = 1"
    by (simp add: chain_finish_once)
qed

theorem applyOnyxData_finish_signal_witness:
  "finish_signals (applyOnyxData (host_with working_bridge (Return (Resolved ()))) inline_update) = 1
   \<and> finish_signals
       (applyOnyxData (host_with working_bridge (Return (Rejected Error))) inline_update) = 1
   \<and> finish_signals (applyOnyxData (host_with working_bridge (Throw Error)) inline_update) = 1"
proof -
  have "finish_signals (applyOnyxData (host_with working_bridge outcome) inline_update) = 1"
    if "\<not> hangs outcome" for outcome
    using that applyOnyxData_finish_signal [where d = inline_update
        and h = "host_with working_bridge outcome"
        and bridge = "\<lparr>finishBackgroundProcessing = Native_function (Return (Resolved ()))\<rparr>"
        and r = "Return (Resolved ())", THEN conjunct2]
    by (simp add: required_fields_present_def inline_update_def host_with_def
        working_bridge_def bridge_with_def)
  then show ?thesis by simp
qed

text \<open>
  The case the amended claim leaves out: when the call of \<^verbatim>\<open>finishBackgroundProcessing\<close>
  fails after the collaborator has succeeded, the \<^verbatim>\<open>catch\<close> at the end of the chain
  calls it a second time.
\<close>

lemma applyOnyxData_failing_finish_is_repeated:
  "finish_signals
     (applyOnyxData (host_with (bridge_with (Native_function (Return (Rejected Error))))
        (Return (Resolved ()))) inline_update)
   = 2"
  by (simp add: applyOnyxData_def inline_update_def finish_signals_def host_with_def
      bridge_with_def applyOnyxData_chain_def getLastUpdateIDAppliedToClient_def
      safelyFinishBackgroundProcessing_def)

text \<open>
  Without the bridge no signal can be sent, and while the collaborator has not settled
  none is sent either.
\<close>

lemma applyOnyxData_without_bridge_sends_no_signal:
  "finish_signals
     (applyOnyxData (host_with \<lparr>PushNotificationBridge = None\<rparr> (Return (Resolved ()))) inline_update)
   = 0"
  by (simp add: applyOnyxData_def inline_update_def finish_signals_def host_with_def
      applyOnyxData_chain_def getLastUpdateIDAppliedToClient_def
      safelyFinishBackgroundProcessing_def)

lemma applyOnyxData_unsettled_collaborator_sends_no_signal:
  "finish_signals (applyOnyxData (host_with working_bridge (Return Pending)) inline_update) = 0"
  by (simp add: applyOnyxData_def inline_update_def finish_signals_def host_with_def
      applyOnyxData_chain_def getLastUpdateIDAppliedToClient_def)

subsection \<open>The Report Navigator\<close>

text \<open>
  Claim C9. For every input, every navigation collaborator and every state,
  \<^verbatim>\<open>navigateToReport\<close> returns a promise that is fulfilled already, with the
  navigation state untouched at that moment: the wait for the routes, the closing of
  the modal and the navigation steps come afterwards, and nothing they do, an exception
  included, reaches the promise.
\<close>

theorem navigateToReport_returns_resolved:
  "returned_promise (navigateToReport rt cfg nav isSingleNewDotEntry d s) = Resolved ()
   \<and> state_at_return (navigateToReport rt cfg nav isSingleNewDotEntry d s) = s"
  by (simp add: navigateToReport_def Let_def)

text \<open>
  An instance: the collaborator goes back from the report on screen, then its
  \<^verbatim>\<open>navigate\<close> throws. The exception is caught and the promise returned is fulfilled
  all the same.
\<close>

lemma navigateToReport_failing_navigation:
  "navigateToReport example_runtime example_config failing_navigation False report_7 ''/r/3''
     = \<lparr>returned_promise = Resolved (),
        state_at_return = ''/r/3'',
        state_afterwards = ''/home'',
        caught_error = Some (Other ''navigation failed'')\<rparr>"
  by (simp add: navigateToReport_def navigation_steps_def failing_navigation_def
      example_config_def report_7_def and_then_def yield_def evaluate_def slice_def)

subsection \<open>shouldShowPushNotification\<close>

text \<open>
  Claim C10. For every push payload whose \<^verbatim>\<open>extras.payload\<close> the decoder turns into
  no data, \<^verbatim>\<open>shouldShowPushNotification\<close> returns true; and for every payload decoded
  to data whose \<^verbatim>\<open>type\<close> is \<^verbatim>\<open>'transaction'\<close> it returns true, whatever the report
  functions would answer.
\<close>

theorem shouldShow_undecoded_or_transaction:
  fixes pushPayload :: PushPayload
  shows "(parsePushNotificationPayload rt (map_of (extras pushPayload) ''payload'') = None
      \<longrightarrow> shouldShowPushNotification rt fs pushPayload = Inr True)
   \<and> (\<forall>d. parsePushNotificationPayload rt (map_of (extras pushPayload) ''payload'') = Some d
          \<and> get_property d ''type'' = Some (JString ''transaction'')
      \<longrightarrow> shouldShowPushNotification rt fs pushPayload = Inr True)"
  by (auto simp: shouldShowPushNotification_def dest: get_property_truthy)

theorem shouldShow_undecoded_or_transaction_witness:
  "shouldShowPushNotification example_runtime hiding_report_functions
     (notification_with (JString ''not json'')) = Inr True
   \<and> shouldShowPushNotification example_runtime hiding_report_functions
       (notification_with transaction_42) = Inr True"
proof -
  note inst = shouldShow_undecoded_or_transaction [where rt = example_runtime
      and fs = hiding_report_functions]
  have one: "shouldShowPushNotification example_runtime hiding_report_functions
     (notification_with (JString ''not json'')) = Inr True"
    using inst [where pushPayload = "notification_with (JString ''not json'')", THEN conjunct1]
    by (simp add: notification_with_def parsePushNotificationPayload_def
        gzipped_json_string_def example_runtime_def)
  have two: "shouldShowPushNotification example_runtime hiding_report_functions
       (notification_with transaction_42) = Inr True"
    using inst [where pushPayload = "notification_with transaction_42", THEN conjunct2,
        rule_format, of transaction_42]
    by (simp add: notification_with_def parsePushNotificationPayload_def transaction_42_def)
  from one two show ?thesis by (rule conjI)
qed

text \<open>A report comment, by contrast, is left to the report functions.\<close>

lemma shouldShow_report_comment:
  "shouldShowPushNotification example_runtime hiding_report_functions
     (notification_with report_comment_42) = Inr False"
  by (simp add: shouldShowPushNotification_def notification_with_def report_comment_42_def
      parsePushNotificationPayload_def hiding_report_functions_def example_runtime_def)

end
